theory Spec2Isabelle
  imports Main "HOL-Library.Sublist"
begin

section \<open>The ClassLoader handle of the class loader library\<close>

text \<open>
  The embedding follows \<^verbatim>\<open>src/class_loader.cpp\<close> function by function. A member
  function of \<^verbatim>\<open>ClassLoader\<close> becomes a HOL function on a pair: the object's fields and
  the process-wide state. Mutation is explicit state passing; a C++ exception is the
  \<open>Inl\<close> branch of a sum, returned together with the state in which it was thrown,
  because a throw does not undo the assignments made before it.
\<close>

subsection \<open>Data model\<close>

text \<open>
  What the code does to its surroundings is recorded in a trace, appended in program
  order: the logging macros, the operations on the two mutexes of the object, and the
  calls into \<^verbatim>\<open>class_loader::impl\<close> (with the path and the \<^verbatim>\<open>this\<close> pointer passed).
  "The call is not made" is then a statement about the trace.
\<close>

datatype event =
    LogDebug
  | LogWarn
  | Lock_load_ref_count_mutex
  | Unlock_load_ref_count_mutex
  | Lock_plugin_ref_count_mutex
  | Unlock_plugin_ref_count_mutex
  | Impl_loadLibrary string nat
  | Impl_unloadLibrary string nat

text \<open>
  Modelled from the spec: the class declaration (\<^verbatim>\<open>class_loader/class_loader.hpp\<close>) is
  not among the sources, so the types of the fields follow the spec's data model. The
  fields are in the order of the constructor's initialiser list. The two counters are
  integers, and \<^verbatim>\<open>unloadLibrary\<close> returns \<^verbatim>\<open>load_ref_count_\<close> as a C++ \<^verbatim>\<open>int\<close>: a
  counter is kept as a HOL integer, and the two assignments that compute on it
  (\<open>wrap_int\<close> below) bring their result back into the 32-bit range. Each of the two
  mutexes is the number of times the calling thread holds it: a \<^verbatim>\<open>lock\<close> adds one, an
  \<^verbatim>\<open>unlock\<close> removes one. Other threads are not part of the model. \<open>this_ptr\<close> is the
  address of the object, which the member functions pass on as \<^verbatim>\<open>this\<close>. The field
  names are the source's without the final underscore, which a HOL constant cannot end
  in.
\<close>

record ClassLoader =
  this_ptr :: nat
  ondemand_load_unload :: bool
  library_path :: string
  load_ref_count :: int
  plugin_ref_count :: int
  load_ref_count_mutex :: nat
  plugin_ref_count_mutex :: nat

text \<open>
  The state of the process outside the object: the static member
  \<^verbatim>\<open>has_unmananged_instance_been_created_\<close> (spelt as in the source), the state \<open>'r\<close>
  of the library registry behind \<^verbatim>\<open>class_loader::impl\<close> (which owns the
  dynamic-module primitive), and the trace.
\<close>

record 'r process =
  has_unmananged_instance_been_created :: bool
  registry :: 'r
  trace :: "event list"

type_synonym 'r state = "ClassLoader \<times> 'r process"

text \<open>
  The functions \<^verbatim>\<open>class_loader::impl::loadLibrary\<close> and
  \<^verbatim>\<open>class_loader::impl::unloadLibrary\<close> are called here and defined elsewhere, so they are
  parameters of the model: each takes the path, the \<^verbatim>\<open>this\<close> pointer and the registry
  state, and gives back the new registry state with either an exception \<open>'e\<close> or
  nothing. They act on the registry state only, never on the fields of the handle.
\<close>

record ('e, 'r) impl =
  impl_loadLibrary :: "string \<Rightarrow> nat \<Rightarrow> 'r \<Rightarrow> ('e + unit) \<times> 'r"
  impl_unloadLibrary :: "string \<Rightarrow> nat \<Rightarrow> 'r \<Rightarrow> ('e + unit) \<times> 'r"

definition emit :: "event \<Rightarrow> 'r state \<Rightarrow> 'r state" where
  "emit ev s = (fst s, (snd s)\<lparr>trace := trace (snd s) @ [ev]\<rparr>)"

text \<open>
  The load mutex is a \<^verbatim>\<open>std::recursive_mutex\<close>, the type its \<^verbatim>\<open>lock_guard\<close> names:
  locking adds one to the depth held, unlocking removes one. The plugin mutex is
  treated alike. Every unlock below follows a lock of the same mutex in the same call,
  so the depth is positive where it is decremented.
\<close>

definition lock_load_ref_count_mutex :: "'r state \<Rightarrow> 'r state" where
  "lock_load_ref_count_mutex s =
     emit Lock_load_ref_count_mutex
       ((fst s)\<lparr>load_ref_count_mutex := Suc (load_ref_count_mutex (fst s))\<rparr>, snd s)"

definition unlock_load_ref_count_mutex :: "'r state \<Rightarrow> 'r state" where
  "unlock_load_ref_count_mutex s =
     emit Unlock_load_ref_count_mutex
       ((fst s)\<lparr>load_ref_count_mutex := load_ref_count_mutex (fst s) - 1\<rparr>, snd s)"

definition lock_plugin_ref_count_mutex :: "'r state \<Rightarrow> 'r state" where
  "lock_plugin_ref_count_mutex s =
     emit Lock_plugin_ref_count_mutex
       ((fst s)\<lparr>plugin_ref_count_mutex := Suc (plugin_ref_count_mutex (fst s))\<rparr>, snd s)"

definition unlock_plugin_ref_count_mutex :: "'r state \<Rightarrow> 'r state" where
  "unlock_plugin_ref_count_mutex s =
     emit Unlock_plugin_ref_count_mutex
       ((fst s)\<lparr>plugin_ref_count_mutex := plugin_ref_count_mutex (fst s) - 1\<rparr>, snd s)"

text \<open>The two getters of the configuration.\<close>

definition getLibraryPath :: "ClassLoader \<Rightarrow> string" where
  "getLibraryPath h = library_path h"

definition isOnDemandLoadUnloadEnabled :: "ClassLoader \<Rightarrow> bool" where
  "isOnDemandLoadUnloadEnabled h = ondemand_load_unload h"

text \<open>
  A call of \<^verbatim>\<open>class_loader::impl::loadLibrary(getLibraryPath(), this)\<close>, and of
  \<^verbatim>\<open>unloadLibrary\<close> likewise: the call is traced, the registry state is replaced by the
  one the callee leaves, and the callee's exception, if any, is the outcome.
\<close>

definition call_impl_loadLibrary ::
  "('e, 'r) impl \<Rightarrow> 'r state \<Rightarrow> ('e + unit) \<times> 'r state" where
  "call_impl_loadLibrary I s =
     (let s1 = emit (Impl_loadLibrary (getLibraryPath (fst s)) (this_ptr (fst s))) s;
          res = impl_loadLibrary I (getLibraryPath (fst s)) (this_ptr (fst s))
                  (registry (snd s1))
      in (fst res, (fst s1, (snd s1)\<lparr>registry := snd res\<rparr>)))"

definition call_impl_unloadLibrary ::
  "('e, 'r) impl \<Rightarrow> 'r state \<Rightarrow> ('e + unit) \<times> 'r state" where
  "call_impl_unloadLibrary I s =
     (let s1 = emit (Impl_unloadLibrary (getLibraryPath (fst s)) (this_ptr (fst s))) s;
          res = impl_unloadLibrary I (getLibraryPath (fst s)) (this_ptr (fst s))
                  (registry (snd s1))
      in (fst res, (fst s1, (snd s1)\<lparr>registry := snd res\<rparr>)))"

subsection \<open>The process-wide flag\<close>

text \<open>
  \<^verbatim>\<open>bool ClassLoader::has_unmananged_instance_been_created_ = false;\<close> is the static
  initialiser: the process starts with the flag false and nothing traced.
\<close>

definition process_start :: "'r \<Rightarrow> 'r process" where
  "process_start r =
     \<lparr>has_unmananged_instance_been_created = False, registry = r, trace = []\<rparr>"

definition hasUnmanagedInstanceBeenCreated :: "'r process \<Rightarrow> bool" where
  "hasUnmanagedInstanceBeenCreated p = has_unmananged_instance_been_created p"

definition setUnmanagedInstanceBeenCreated :: "bool \<Rightarrow> 'r process \<Rightarrow> 'r process" where
  "setUnmanagedInstanceBeenCreated state p =
     p\<lparr>has_unmananged_instance_been_created := state\<rparr>"

subsection \<open>Loading and unloading\<close>

text \<open>
  Arithmetic on a 32-bit \<^verbatim>\<open>int\<close>: the result is taken modulo \<open>2^32\<close> into the range from
  \<open>-2^31\<close> to \<open>2^31 - 1\<close>, so that one more than the largest value is the smallest and
  one less than the smallest is the largest. This is what two's complement hardware
  computes; the language itself gives an overflowing signed operation no meaning, so
  nothing better can be said of the code there.
\<close>

definition wrap_int :: "int \<Rightarrow> int" where
  "wrap_int x = (x + 2147483648) mod 4294967296 - 2147483648"

text \<open>
  \<^verbatim>\<open>ClassLoader::loadLibrary\<close>. The empty path returns before anything else. Otherwise
  the \<^verbatim>\<open>lock_guard\<close> locks, the counter is incremented (\<^verbatim>\<open>++load_ref_count_\<close>, on a
  32-bit \<^verbatim>\<open>int\<close>), the registry is called, and the guard's destructor unlocks on the way
  out, whether the registry returned or threw.
\<close>

definition loadLibrary :: "('e, 'r) impl \<Rightarrow> 'r state \<Rightarrow> ('e + unit) \<times> 'r state" where
  "loadLibrary I s =
     (if getLibraryPath (fst s) = [] then (Inr (), s)
      else
        let s1 = lock_load_ref_count_mutex s;
            s2 = ((fst s1)\<lparr>load_ref_count := wrap_int (load_ref_count (fst s1) + 1)\<rparr>,
                  snd s1);
            res = call_impl_loadLibrary I s2
        in (fst res, unlock_load_ref_count_mutex (snd res)))"

text \<open>
  The \<^verbatim>\<open>try\<close> block of \<^verbatim>\<open>ClassLoader::unloadLibraryInternal\<close>: the refusal with its
  warning, or the decrement (\<^verbatim>\<open>load_ref_count_ = load_ref_count_ - 1\<close>, on a 32-bit
  \<^verbatim>\<open>int\<close>), followed by the call of the registry when the counter is 0 and by the reset
  to 0 when it is negative.
\<close>

definition unloadLibraryInternal_try ::
  "('e, 'r) impl \<Rightarrow> 'r state \<Rightarrow> ('e + unit) \<times> 'r state" where
  "unloadLibraryInternal_try I s =
     (if plugin_ref_count (fst s) > 0 then (Inr (), emit LogWarn s)
      else
        let s1 = ((fst s)\<lparr>load_ref_count := wrap_int (load_ref_count (fst s) - 1)\<rparr>,
                  snd s)
        in if load_ref_count (fst s1) = 0 then call_impl_unloadLibrary I s1
           else if load_ref_count (fst s1) < 0
           then (Inr (), ((fst s1)\<lparr>load_ref_count := 0\<rparr>, snd s1))
           else (Inr (), s1))"

text \<open>
  \<^verbatim>\<open>ClassLoader::unloadLibraryInternal\<close>. The guard locks the load mutex, the plugin
  mutex is locked by hand when asked. An exception of the \<^verbatim>\<open>try\<close> block reaches
  \<^verbatim>\<open>catch (...)\<close>, which unlocks the plugin mutex when it was locked and rethrows with
  \<^verbatim>\<open>throw;\<close>; the guard's destructor then unlocks the load mutex. Without an exception
  the plugin mutex is unlocked, the counter is read for the return value, and the guard
  unlocks.
\<close>

definition unloadLibraryInternal ::
  "('e, 'r) impl \<Rightarrow> bool \<Rightarrow> 'r state \<Rightarrow> ('e + int) \<times> 'r state" where
  "unloadLibraryInternal I lock_plugin_ref_count s =
     (let s1 = lock_load_ref_count_mutex s;
          s2 = (if lock_plugin_ref_count then lock_plugin_ref_count_mutex s1 else s1);
          res = unloadLibraryInternal_try I s2
      in case fst res of
           Inl e \<Rightarrow>
             let s3 = (if lock_plugin_ref_count
                       then unlock_plugin_ref_count_mutex (snd res) else snd res)
             in (Inl e, unlock_load_ref_count_mutex s3)
         | Inr _ \<Rightarrow>
             let s3 = (if lock_plugin_ref_count
                       then unlock_plugin_ref_count_mutex (snd res) else snd res)
             in (Inr (load_ref_count (fst s3)), unlock_load_ref_count_mutex s3))"

text \<open>\<^verbatim>\<open>ClassLoader::unloadLibrary\<close>: 0 for the empty path, else the internal unload
  with the plugin mutex taken.\<close>

definition unloadLibrary :: "('e, 'r) impl \<Rightarrow> 'r state \<Rightarrow> ('e + int) \<times> 'r state" where
  "unloadLibrary I s =
     (if getLibraryPath (fst s) = [] then (Inr 0, s)
      else unloadLibraryInternal I True s)"

subsection \<open>Construction and destruction\<close>

text \<open>
  The constructor initialises the four fields of its initialiser list (the mutexes are
  default-constructed, held by nobody), logs, and loads unless on-demand loading is
  enabled. \<open>this\<close> is the address at which the object is built. An exception of
  \<^verbatim>\<open>loadLibrary\<close> leaves the constructor, and then no object exists; the state returned
  with it is the one at the throw.
\<close>

definition ClassLoader_constructor ::
  "('e, 'r) impl \<Rightarrow> nat \<Rightarrow> string \<Rightarrow> bool \<Rightarrow> 'r process \<Rightarrow> ('e + unit) \<times> 'r state" where
  "ClassLoader_constructor I this library_path' ondemand_load_unload' p =
     (let h = \<lparr>this_ptr = this,
                ondemand_load_unload = ondemand_load_unload',
                library_path = library_path',
                load_ref_count = 0,
                plugin_ref_count = 0,
                load_ref_count_mutex = 0,
                plugin_ref_count_mutex = 0\<rparr>;
          s = emit LogDebug (h, p)
      in if \<not> isOnDemandLoadUnloadEnabled (fst s) then loadLibrary I s
         else (Inr (), s))"

text \<open>
  The destructor logs and calls \<^verbatim>\<open>unloadLibrary()\<close>, dropping the value returned. A
  destructor is \<^verbatim>\<open>noexcept\<close> unless declared otherwise, so an exception of
  \<^verbatim>\<open>unloadLibrary()\<close> does not reach the caller: \<^verbatim>\<open>std::terminate\<close> ends the process, and
  the state returned is the one in which it does.
\<close>

datatype 'e uncaught = Terminate 'e

definition ClassLoader_destructor ::
  "('e, 'r) impl \<Rightarrow> 'r state \<Rightarrow> ('e uncaught + unit) \<times> 'r state" where
  "ClassLoader_destructor I s =
     (let res = unloadLibrary I (emit LogDebug s)
      in (case fst res of Inl e \<Rightarrow> Inl (Terminate e) | Inr _ \<Rightarrow> Inr (), snd res))"

subsection \<open>Sequences of calls\<close>

text \<open>
  A client calls the public operations one after the other. An exception of one call
  does not end the sequence (the client may catch it), so the next call starts in the
  state the previous one left, whatever its outcome. \<open>boundaries\<close> lists the states
  between the calls, the start first and the end last; \<open>run\<close> gives the end alone.
\<close>

datatype call = Load | Unload

fun call_step :: "('e, 'r) impl \<Rightarrow> call \<Rightarrow> 'r state \<Rightarrow> 'r state" where
  "call_step I Load s = snd (loadLibrary I s)"
| "call_step I Unload s = snd (unloadLibrary I s)"

text \<open>
  The public operations on a constructed handle that the claims name: the two calls and
  the destructor. In a program the destructor is the last operation on an object, and
  one that ends in \<^verbatim>\<open>std::terminate\<close> is the last of the process; the lists here are
  not restricted, which only adds states.
\<close>

datatype operation = Call call | Destroy

fun operation_step :: "('e, 'r) impl \<Rightarrow> operation \<Rightarrow> 'r state \<Rightarrow> 'r state" where
  "operation_step I (Call c) s = call_step I c s"
| "operation_step I Destroy s = snd (ClassLoader_destructor I s)"

fun boundaries :: "('c \<Rightarrow> 's \<Rightarrow> 's) \<Rightarrow> 's \<Rightarrow> 'c list \<Rightarrow> 's list" where
  "boundaries step s [] = [s]"
| "boundaries step s (c # cs) = s # boundaries step (step c s) cs"

fun run :: "('c \<Rightarrow> 's \<Rightarrow> 's) \<Rightarrow> 's \<Rightarrow> 'c list \<Rightarrow> 's" where
  "run step s [] = s"
| "run step s (c # cs) = run step (step c s) cs"

subsection \<open>Concrete inputs\<close>

text \<open>
  Two registries and a few handles on which the theorems below are instantiated. The
  first registry never throws and counts the calls it serves in its state; the second
  throws on every call and leaves its state as it is.
\<close>

definition counting_impl :: "(string, nat) impl" where
  "counting_impl =
     \<lparr>impl_loadLibrary = (\<lambda>path this r. (Inr (), Suc r)),
      impl_unloadLibrary = (\<lambda>path this r. (Inr (), Suc r))\<rparr>"

definition throwing_impl :: "(string, nat) impl" where
  "throwing_impl =
     \<lparr>impl_loadLibrary = (\<lambda>path this r. (Inl ''LibraryLoadException'', r)),
      impl_unloadLibrary = (\<lambda>path this r. (Inl ''LibraryUnloadException'', r))\<rparr>"

text \<open>A handle at address 7 bound to \<open>libfoo\<close>, with the two counters given.\<close>

definition libfoo_handle :: "int \<Rightarrow> int \<Rightarrow> ClassLoader" where
  "libfoo_handle loads plugins =
     \<lparr>this_ptr = 7, ondemand_load_unload = True, library_path = ''libfoo'',
      load_ref_count = loads, plugin_ref_count = plugins,
      load_ref_count_mutex = 0, plugin_ref_count_mutex = 0\<rparr>"

text \<open>The same handle with the empty path, the sentinel of a library linked at link time.\<close>

definition linked_handle :: ClassLoader where
  "linked_handle =
     \<lparr>this_ptr = 7, ondemand_load_unload = False, library_path = [],
      load_ref_count = 0, plugin_ref_count = 0,
      load_ref_count_mutex = 0, plugin_ref_count_mutex = 0\<rparr>"

text \<open>The state after constructing an on-demand handle for \<open>libfoo\<close> at address 7 in a
  fresh process.\<close>

definition on_demand_libfoo :: "nat state" where
  "on_demand_libfoo =
     snd (ClassLoader_constructor counting_impl 7 ''libfoo'' True (process_start 0))"


section \<open>Properties\<close>

lemmas model_defs =
  loadLibrary_def unloadLibrary_def unloadLibraryInternal_def unloadLibraryInternal_try_def
  call_impl_loadLibrary_def call_impl_unloadLibrary_def
  lock_load_ref_count_mutex_def unlock_load_ref_count_mutex_def
  lock_plugin_ref_count_mutex_def unlock_plugin_ref_count_mutex_def
  emit_def getLibraryPath_def isOnDemandLoadUnloadEnabled_def
  ClassLoader_constructor_def ClassLoader_destructor_def

subsection \<open>32-bit arithmetic\<close>

lemma wrap_int_id: "- 2147483648 \<le> x \<Longrightarrow> x \<le> 2147483647 \<Longrightarrow> wrap_int x = x"
  by (simp add: wrap_int_def)

lemma wrap_int_range: "- 2147483648 \<le> wrap_int x \<and> wrap_int x \<le> 2147483647"
proof -
  have "0 \<le> (x + 2147483648) mod 4294967296" and "(x + 2147483648) mod 4294967296 < 4294967296"
    by simp_all
  then show ?thesis unfolding wrap_int_def by linarith
qed

lemma wrap_int_add: "wrap_int (wrap_int x + y) = wrap_int (x + y)"
proof -
  have "((x + 2147483648) mod 4294967296 + y) mod 4294967296 =
          (x + 2147483648 + y) mod 4294967296"
    by (rule mod_add_left_eq)
  moreover have "(x + 2147483648) mod 4294967296 - 2147483648 + y + 2147483648 =
          (x + 2147483648) mod 4294967296 + y"
    and "x + y + 2147483648 = x + 2147483648 + y"
    by simp_all
  ultimately show ?thesis unfolding wrap_int_def by (simp only:)
qed

lemma wrap_int_0: "wrap_int 0 = 0"
  by (simp add: wrap_int_def)

subsection \<open>The diagnostic flag\<close>

text \<open>
  C8. The process-wide flag is false when the process starts. After
  \<^verbatim>\<open>setUnmanagedInstanceBeenCreated(b)\<close> the getter returns \<open>b\<close>, for both booleans, and
  the rest of the process state (the registry and the trace) is as before; the setter
  has no access to any handle.
\<close>

theorem flag_get_after_set:
  "hasUnmanagedInstanceBeenCreated (process_start r) = False \<and>
   hasUnmanagedInstanceBeenCreated (setUnmanagedInstanceBeenCreated b p) = b \<and>
   registry (setUnmanagedInstanceBeenCreated b p) = registry p \<and>
   trace (setUnmanagedInstanceBeenCreated b p) = trace p"
  by (simp add: hasUnmanagedInstanceBeenCreated_def setUnmanagedInstanceBeenCreated_def
      process_start_def)

subsection \<open>Refusal while plugin instances are alive\<close>

text \<open>
  C2. In a state with \<open>plugin_ref_count > 0\<close> and a non-empty path, \<^verbatim>\<open>unload()\<close> returns
  normally with the value of \<open>load_ref_count\<close>, which it does not change. The handle is
  left exactly as it was (both mutexes released again), the registry state is
  untouched, and the trace gains the two locks, the warning and the two unlocks: no
  call of \<^verbatim>\<open>impl::unloadLibrary\<close>, hence none of the primitive's close operation behind
  it.
\<close>

theorem unload_refused_while_plugins_live:
  assumes "0 < plugin_ref_count h" and "getLibraryPath h \<noteq> []"
  shows "unloadLibrary I (h, p) =
    (Inr (load_ref_count h),
     (h, p\<lparr>trace := trace p @
            [Lock_load_ref_count_mutex, Lock_plugin_ref_count_mutex, LogWarn,
             Unlock_plugin_ref_count_mutex, Unlock_load_ref_count_mutex]\<rparr>))"
  using assms by (simp add: model_defs Let_def)

theorem unload_refused_while_plugins_live_witness:
  "0 < plugin_ref_count (libfoo_handle 2 1) \<and> getLibraryPath (libfoo_handle 2 1) \<noteq> [] \<and>
   unloadLibrary throwing_impl (libfoo_handle 2 1, process_start 0) =
    (Inr 2,
     (libfoo_handle 2 1,
      \<lparr>has_unmananged_instance_been_created = False, registry = 0,
       trace = [Lock_load_ref_count_mutex, Lock_plugin_ref_count_mutex, LogWarn,
                Unlock_plugin_ref_count_mutex, Unlock_load_ref_count_mutex]\<rparr>))"
  using unload_refused_while_plugins_live [of "libfoo_handle 2 1" throwing_impl "process_start 0"]
  by (simp add: libfoo_handle_def getLibraryPath_def process_start_def)

subsection \<open>The internal unload\<close>

text \<open>
  C5, as the code has it. The claim puts no condition on \<open>load_ref_count\<close>, and fails at
  the smallest 32-bit value, which \<open>2^31\<close> loads leave in the counter of a fresh handle
  (\<open>loads_reach_smallest_int\<close> below): there the decrement gives \<open>2^31 - 1\<close>, which is
  neither 0 nor negative, so no floor is applied and the counter ends at 2147483647,
  where a decrement with a floor of 0 ends at 0. The registry is not called.
\<close>

theorem internal_unload_floor_counterexample:
  "plugin_ref_count (libfoo_handle (- 2147483648) 0) = 0 \<and>
   getLibraryPath (libfoo_handle (- 2147483648) 0) \<noteq> [] \<and>
   unloadLibraryInternal counting_impl True (libfoo_handle (- 2147483648) 0, process_start 0) =
     (Inr 2147483647,
      (libfoo_handle 2147483647 0,
       \<lparr>has_unmananged_instance_been_created = False, registry = 0,
        trace = [Lock_load_ref_count_mutex, Lock_plugin_ref_count_mutex,
                 Unlock_plugin_ref_count_mutex, Unlock_load_ref_count_mutex]\<rparr>)) \<and>
   max 0 (- 2147483648 - 1) = (0::int)"
  by (simp add: model_defs wrap_int_def Let_def libfoo_handle_def process_start_def)

text \<open>
  C5, amended. In the internal unload with \<open>plugin_ref_count = 0\<close> and a non-empty path,
  whether or not the plugin mutex is to be taken, and with \<open>load_ref_count\<close> any 32-bit
  value but the smallest, the counter ends at \<open>max 0 (load_ref_count - 1)\<close>:
  decremented, with a floor of 0. \<^verbatim>\<open>impl::unloadLibrary(path, this)\<close> is called, once,
  exactly when the decrement gives 0 (the counter was 1); otherwise the trace holds only
  the lock and unlock operations and the registry state is as before. In particular a
  counter that is 0 again only because of the floor does not reach the registry.
\<close>

theorem internal_unload_decrement_floor_release:
  assumes "plugin_ref_count h = 0" and "getLibraryPath h \<noteq> []"
    and "- 2147483648 < load_ref_count h" and "load_ref_count h \<le> 2147483647"
  shows "load_ref_count (fst (snd (unloadLibraryInternal I lock_plugin (h, p)))) =
           max 0 (load_ref_count h - 1) \<and>
         trace (snd (snd (unloadLibraryInternal I lock_plugin (h, p)))) =
           trace p @ [Lock_load_ref_count_mutex] @
           (if lock_plugin then [Lock_plugin_ref_count_mutex] else []) @
           (if load_ref_count h - 1 = 0
            then [Impl_unloadLibrary (getLibraryPath h) (this_ptr h)] else []) @
           (if lock_plugin then [Unlock_plugin_ref_count_mutex] else []) @
           [Unlock_load_ref_count_mutex] \<and>
         registry (snd (snd (unloadLibraryInternal I lock_plugin (h, p)))) =
           (if load_ref_count h - 1 = 0
            then snd (impl_unloadLibrary I (getLibraryPath h) (this_ptr h) (registry p))
            else registry p)"
proof -
  have "wrap_int (load_ref_count h - 1) = load_ref_count h - 1"
    using assms(3,4) by (intro wrap_int_id) simp_all
  with assms(1,2) show ?thesis
    by (simp add: model_defs wrap_int_0 Let_def split: sum.splits)
qed

theorem internal_unload_decrement_floor_release_witness:
  "plugin_ref_count (libfoo_handle 1 0) = 0 \<and> getLibraryPath (libfoo_handle 1 0) \<noteq> [] \<and>
   - 2147483648 < load_ref_count (libfoo_handle 1 0) \<and>
   load_ref_count (libfoo_handle 1 0) \<le> 2147483647 \<and>
   load_ref_count (fst (snd (unloadLibraryInternal counting_impl True
      (libfoo_handle 1 0, process_start 0)))) = 0 \<and>
   trace (snd (snd (unloadLibraryInternal counting_impl True
      (libfoo_handle 1 0, process_start 0)))) =
     [Lock_load_ref_count_mutex, Lock_plugin_ref_count_mutex, Impl_unloadLibrary ''libfoo'' 7,
      Unlock_plugin_ref_count_mutex, Unlock_load_ref_count_mutex] \<and>
   registry (snd (snd (unloadLibraryInternal counting_impl True
      (libfoo_handle 1 0, process_start 0)))) = 1"
  using internal_unload_decrement_floor_release
    [of "libfoo_handle 1 0" counting_impl True "process_start 0"]
  by (simp add: libfoo_handle_def getLibraryPath_def process_start_def counting_impl_def)

text \<open>
  C7. Suppose the internal unload reaches the registry (no plugin instance is counted
  and the decrement gives 0) and \<^verbatim>\<open>impl::unloadLibrary\<close> throws \<open>e\<close>. Then the internal
  unload throws the same \<open>e\<close>, and in the state in which the caller receives it both
  mutexes are held exactly as often as before the call: the plugin mutex, if it was
  taken, was unlocked in the \<^verbatim>\<open>catch\<close> block, and the load mutex by its guard. The trace
  shows the order: the unlocks come after the registry call and before the return.
\<close>

theorem internal_unload_releases_locks_on_error:
  assumes "\<not> 0 < plugin_ref_count h" and "load_ref_count h - 1 = 0"
    and "fst (impl_unloadLibrary I (getLibraryPath h) (this_ptr h) (registry p)) = Inl e"
  shows "fst (unloadLibraryInternal I lock_plugin (h, p)) = Inl e \<and>
         load_ref_count_mutex (fst (snd (unloadLibraryInternal I lock_plugin (h, p)))) =
           load_ref_count_mutex h \<and>
         plugin_ref_count_mutex (fst (snd (unloadLibraryInternal I lock_plugin (h, p)))) =
           plugin_ref_count_mutex h \<and>
         trace (snd (snd (unloadLibraryInternal I lock_plugin (h, p)))) =
           trace p @ [Lock_load_ref_count_mutex] @
           (if lock_plugin then [Lock_plugin_ref_count_mutex] else []) @
           [Impl_unloadLibrary (getLibraryPath h) (this_ptr h)] @
           (if lock_plugin then [Unlock_plugin_ref_count_mutex] else []) @
           [Unlock_load_ref_count_mutex]"
  using assms by (simp add: model_defs wrap_int_def Let_def)

theorem internal_unload_releases_locks_on_error_witness:
  "\<not> 0 < plugin_ref_count (libfoo_handle 1 0) \<and> load_ref_count (libfoo_handle 1 0) - 1 = 0 \<and>
   fst (impl_unloadLibrary throwing_impl (getLibraryPath (libfoo_handle 1 0))
          (this_ptr (libfoo_handle 1 0)) (registry (process_start (0::nat)))) =
     Inl ''LibraryUnloadException'' \<and>
   fst (unloadLibraryInternal throwing_impl True (libfoo_handle 1 0, process_start 0)) =
     Inl ''LibraryUnloadException'' \<and>
   load_ref_count_mutex (fst (snd (unloadLibraryInternal throwing_impl True
      (libfoo_handle 1 0, process_start 0)))) = 0 \<and>
   plugin_ref_count_mutex (fst (snd (unloadLibraryInternal throwing_impl True
      (libfoo_handle 1 0, process_start 0)))) = 0 \<and>
   trace (snd (snd (unloadLibraryInternal throwing_impl True
      (libfoo_handle 1 0, process_start 0)))) =
     [Lock_load_ref_count_mutex, Lock_plugin_ref_count_mutex, Impl_unloadLibrary ''libfoo'' 7,
      Unlock_plugin_ref_count_mutex, Unlock_load_ref_count_mutex]"
  using internal_unload_releases_locks_on_error
    [of "libfoo_handle 1 0" throwing_impl "process_start 0" "''LibraryUnloadException''" True]
  by (simp add: libfoo_handle_def getLibraryPath_def process_start_def throwing_impl_def)

text \<open>
  C9. \<^verbatim>\<open>unload()\<close> on a handle with a non-empty path whose two counters are 0 returns 0
  and leaves the handle as it was, \<open>load_ref_count\<close> at 0. The registry state is
  unchanged and the trace gains the lock and unlock operations only:
  \<^verbatim>\<open>impl::unloadLibrary\<close> is not called, so neither is the primitive's close operation.
\<close>

theorem unload_at_zero_is_clamped:
  assumes "getLibraryPath h \<noteq> []" and "load_ref_count h = 0" and "plugin_ref_count h = 0"
  shows "unloadLibrary I (h, p) =
    (Inr 0,
     (h, p\<lparr>trace := trace p @
            [Lock_load_ref_count_mutex, Lock_plugin_ref_count_mutex,
             Unlock_plugin_ref_count_mutex, Unlock_load_ref_count_mutex]\<rparr>))"
  using assms by (simp add: model_defs wrap_int_def Let_def)

theorem unload_at_zero_is_clamped_witness:
  "getLibraryPath (libfoo_handle 0 0) \<noteq> [] \<and> load_ref_count (libfoo_handle 0 0) = 0 \<and>
   plugin_ref_count (libfoo_handle 0 0) = 0 \<and>
   unloadLibrary throwing_impl (libfoo_handle 0 0, process_start 0) =
    (Inr 0,
     (libfoo_handle 0 0,
      \<lparr>has_unmananged_instance_been_created = False, registry = 0,
       trace = [Lock_load_ref_count_mutex, Lock_plugin_ref_count_mutex,
                Unlock_plugin_ref_count_mutex, Unlock_load_ref_count_mutex]\<rparr>))"
  using unload_at_zero_is_clamped [of "libfoo_handle 0 0" throwing_impl "process_start 0"]
  by (simp add: libfoo_handle_def getLibraryPath_def process_start_def)

subsection \<open>Construction\<close>

text \<open>
  C6. Constructing with \<open>on_demand = false\<close> and a non-empty path calls
  \<^verbatim>\<open>impl::loadLibrary(path, this)\<close> exactly once, between the lock and the unlock of the
  load mutex, and leaves \<open>load_ref_count = 1\<close>; the outcome of the constructor is the
  outcome of that call. Constructing with \<open>on_demand = true\<close> (any path) returns
  normally with \<open>load_ref_count = 0\<close>, only the debug message traced and the registry
  state untouched.
\<close>

theorem construction_loads_unless_on_demand:
  "(path \<noteq> [] \<longrightarrow>
      fst (ClassLoader_constructor I this path False p) =
        fst (impl_loadLibrary I path this (registry p)) \<and>
      load_ref_count (fst (snd (ClassLoader_constructor I this path False p))) = 1 \<and>
      trace (snd (snd (ClassLoader_constructor I this path False p))) =
        trace p @ [LogDebug, Lock_load_ref_count_mutex, Impl_loadLibrary path this,
                   Unlock_load_ref_count_mutex] \<and>
      registry (snd (snd (ClassLoader_constructor I this path False p))) =
        snd (impl_loadLibrary I path this (registry p))) \<and>
   fst (ClassLoader_constructor I this path True p) = Inr () \<and>
   load_ref_count (fst (snd (ClassLoader_constructor I this path True p))) = 0 \<and>
   trace (snd (snd (ClassLoader_constructor I this path True p))) = trace p @ [LogDebug] \<and>
   registry (snd (snd (ClassLoader_constructor I this path True p))) = registry p"
  by (simp add: model_defs wrap_int_def Let_def)

theorem construction_loads_unless_on_demand_witness:
  "''libfoo'' \<noteq> [] \<and>
   fst (ClassLoader_constructor counting_impl 7 ''libfoo'' False (process_start 0)) = Inr () \<and>
   load_ref_count (fst (snd (ClassLoader_constructor counting_impl 7 ''libfoo'' False
      (process_start 0)))) = 1 \<and>
   trace (snd (snd (ClassLoader_constructor counting_impl 7 ''libfoo'' False
      (process_start 0)))) =
     [LogDebug, Lock_load_ref_count_mutex, Impl_loadLibrary ''libfoo'' 7,
      Unlock_load_ref_count_mutex] \<and>
   registry (snd (snd (ClassLoader_constructor counting_impl 7 ''libfoo'' False
      (process_start 0)))) = 1 \<and>
   load_ref_count (fst (snd (ClassLoader_constructor counting_impl 7 ''libfoo'' True
      (process_start 0)))) = 0 \<and>
   registry (snd (snd (ClassLoader_constructor counting_impl 7 ''libfoo'' True
      (process_start 0)))) = 0"
  using construction_loads_unless_on_demand [of "''libfoo''" counting_impl 7 "process_start 0"]
  by (simp add: process_start_def counting_impl_def)

subsection \<open>The empty path\<close>

text \<open>
  C4. Constructing a handle with the empty path returns normally, for either value of
  \<open>on_demand\<close>, with both counters 0, the registry state untouched and only the debug
  message traced. On a handle \<open>h\<close> with the empty path, \<^verbatim>\<open>load()\<close> returns with the whole
  state unchanged, \<^verbatim>\<open>unload()\<close> returns 0 with the whole state unchanged, and the
  destructor changes nothing but the trace, by its debug message. No operation calls
  \<^verbatim>\<open>class_loader::impl\<close>, through which alone the primitive is reached.
\<close>

theorem empty_path_never_reaches_registry:
  assumes "getLibraryPath h = []"
  shows "ClassLoader_constructor I this [] ondemand p =
           (Inr (),
            (\<lparr>this_ptr = this, ondemand_load_unload = ondemand, library_path = [],
              load_ref_count = 0, plugin_ref_count = 0,
              load_ref_count_mutex = 0, plugin_ref_count_mutex = 0\<rparr>,
             p\<lparr>trace := trace p @ [LogDebug]\<rparr>)) \<and>
         loadLibrary I (h, p) = (Inr (), (h, p)) \<and>
         unloadLibrary I (h, p) = (Inr 0, (h, p)) \<and>
         ClassLoader_destructor I (h, p) = (Inr (), (h, p\<lparr>trace := trace p @ [LogDebug]\<rparr>))"
  using assms by (simp add: model_defs Let_def)

theorem empty_path_never_reaches_registry_witness:
  "getLibraryPath linked_handle = [] \<and>
   ClassLoader_constructor throwing_impl 7 [] False (process_start 0) =
     (Inr (), (linked_handle, \<lparr>has_unmananged_instance_been_created = False, registry = 0,
                                trace = [LogDebug]\<rparr>)) \<and>
   loadLibrary throwing_impl (linked_handle, process_start 0) =
     (Inr (), (linked_handle, process_start 0)) \<and>
   unloadLibrary throwing_impl (linked_handle, process_start 0) =
     (Inr 0, (linked_handle, process_start 0)) \<and>
   ClassLoader_destructor throwing_impl (linked_handle, process_start 0) =
     (Inr (), (linked_handle, \<lparr>has_unmananged_instance_been_created = False, registry = 0,
                                trace = [LogDebug]\<rparr>))"
  using empty_path_never_reaches_registry
    [of linked_handle throwing_impl 7 False "process_start 0"]
  by (simp add: linked_handle_def getLibraryPath_def process_start_def)

subsection \<open>One call in a sequence\<close>





lemma length_boundaries: "length (boundaries step s cs) = Suc (length cs)"
  by (induction cs arbitrary: s) simp_all





text \<open>
  Loads alone: from a 32-bit counter \<open>c\<close>, \<open>n\<close> loads on a handle with a non-empty path
  leave the handle as it was but for the counter, which holds \<open>c + n\<close> wrapped to 32
  bits.
\<close>

lemma run_replicate_Load:
  assumes "getLibraryPath (fst s) \<noteq> []"
    and "- 2147483648 \<le> load_ref_count (fst s)" and "load_ref_count (fst s) \<le> 2147483647"
  shows "fst (run (call_step I) s (replicate n Load)) =
           (fst s)\<lparr>load_ref_count := wrap_int (load_ref_count (fst s) + int n)\<rparr>"
  using assms
proof (induction n arbitrary: s)
  case 0
  then show ?case by (simp add: wrap_int_id)
next
  case (Suc n)
  let ?s' = "call_step I Load s"
  have fst_s': "fst ?s' = (fst s)\<lparr>load_ref_count := wrap_int (load_ref_count (fst s) + 1)\<rparr>"
    using Suc.prems(1) by (simp add: model_defs Let_def)
  then have path: "getLibraryPath (fst ?s') \<noteq> []"
    using Suc.prems(1) by (simp add: getLibraryPath_def)
  have lo: "- 2147483648 \<le> load_ref_count (fst ?s')"
    and hi: "load_ref_count (fst ?s') \<le> 2147483647"
    using wrap_int_range [of "load_ref_count (fst s) + 1"]
    by (simp_all add: fst_s' del: call_step.simps)
  have "load_ref_count (fst s) + 1 + int n = load_ref_count (fst s) + int (Suc n)"
    by simp
  with wrap_int_add [of "load_ref_count (fst s) + 1" "int n"]
  have "wrap_int (wrap_int (load_ref_count (fst s) + 1) + int n) =
          wrap_int (load_ref_count (fst s) + int (Suc n))"
    by (simp only:)
  with Suc.IH [OF path lo hi] show ?case
    by (simp add: fst_s' del: call_step.simps)
qed

text \<open>The handle of the counterexample to C5 is the one that \<open>2^31\<close> loads make of a fresh
  on-demand handle for \<open>libfoo\<close>.\<close>

lemma loads_reach_smallest_int:
  "fst (run (call_step counting_impl) on_demand_libfoo (replicate 2147483648 Load)) =
     libfoo_handle (- 2147483648) 0"
proof -
  have start: "fst on_demand_libfoo = libfoo_handle 0 0"
    by (simp add: on_demand_libfoo_def libfoo_handle_def model_defs Let_def)
  then have "getLibraryPath (fst on_demand_libfoo) \<noteq> []"
    and "- 2147483648 \<le> load_ref_count (fst on_demand_libfoo)"
    and "load_ref_count (fst on_demand_libfoo) \<le> 2147483647"
    by (simp_all add: libfoo_handle_def getLibraryPath_def)
  from run_replicate_Load [OF this, of counting_impl 2147483648] start show ?thesis
    by (simp add: libfoo_handle_def wrap_int_def)
qed

subsection \<open>The counter over a sequence of calls\<close>




text \<open>With the empty path no operation changes the handle at all.\<close>

lemma operation_step_empty_path:
  assumes "getLibraryPath (fst s) = []"
  shows "fst (operation_step I x s) = fst s"
proof (cases x)
  case (Call c)
  with assms show ?thesis by (cases c) (simp_all add: model_defs)
next
  case Destroy
  with assms show ?thesis by (simp add: model_defs)
qed

lemma boundaries_empty_path:
  "getLibraryPath (fst s) = [] \<Longrightarrow>
   \<forall>t \<in> set (boundaries (operation_step I) s xs). fst t = fst s"
proof (induction xs arbitrary: s)
  case Nil
  then show ?case by simp
next
  case (Cons x xs)
  have eq: "fst (operation_step I x s) = fst s"
    using Cons.prems by (rule operation_step_empty_path)
  with Cons.prems have "getLibraryPath (fst (operation_step I x s)) = []" by simp
  from Cons.IH [OF this] eq show ?case by simp
qed

text \<open>
  C10. Construct a handle with the empty path, with either value of \<open>on_demand\<close>, and
  apply any list of public operations (\<^verbatim>\<open>load()\<close>, \<^verbatim>\<open>unload()\<close>, the destructor). In
  every state passed, the one right after construction included, \<open>load_ref_count\<close> is 0.
\<close>

theorem empty_path_load_ref_count_always_zero:
  "\<forall>t \<in> set (boundaries (operation_step I)
                 (snd (ClassLoader_constructor I this [] ondemand p)) xs).
     load_ref_count (fst t) = 0"
proof -
  let ?s = "snd (ClassLoader_constructor I this [] ondemand p)"
  have path: "getLibraryPath (fst ?s) = []" and zero: "load_ref_count (fst ?s) = 0"
    by (simp_all add: model_defs Let_def)
  from boundaries_empty_path [OF path, of I xs] zero show ?thesis by simp
qed

theorem empty_path_load_ref_count_always_zero_witness:
  "map (load_ref_count \<circ> fst)
     (boundaries (operation_step throwing_impl)
        (snd (ClassLoader_constructor throwing_impl 7 [] False (process_start (0::nat))))
        [Call Load, Call Unload, Call Load, Destroy]) = [0, 0, 0, 0, 0]"
  using empty_path_load_ref_count_always_zero
    [of throwing_impl 7 False "process_start (0::nat)" "[Call Load, Call Unload, Call Load, Destroy]"]
  by (simp add: model_defs Let_def)

subsection \<open>The final value of the counter\<close>













end
